theory Spec2Isabelle
  imports Main "HOL-Library.Sublist" "HOL-Library.Word"
begin

section \<open>Python strings\<close>

text \<open>
  A Python \<open>str\<close> is a sequence of Unicode code points, so it is modelled as a list of
  natural numbers, one per code point. \<open>py\<close> turns an ASCII literal into such a list.
\<close>

type_synonym pystr = "nat list"

definition py :: "string \<Rightarrow> pystr" where
  "py s = map of_char s"

text \<open>
  \<open>str.strip()\<close> without argument removes the characters for which \<open>str.isspace\<close> holds
  from both ends: the ASCII controls 9-13 and 28-31, the space, and the Unicode separators
  listed below.
\<close>

definition py_isspace :: "nat \<Rightarrow> bool" where
  "py_isspace c \<longleftrightarrow>
     (9 \<le> c \<and> c \<le> 13) \<or> (28 \<le> c \<and> c \<le> 32) \<or> c = 133 \<or> c = 160 \<or> c = 5760 \<or>
     (8192 \<le> c \<and> c \<le> 8202) \<or> c = 8232 \<or> c = 8233 \<or> c = 8239 \<or> c = 8287 \<or> c = 12288"

definition strip :: "pystr \<Rightarrow> pystr" where
  "strip s = rev (dropWhile py_isspace (rev (dropWhile py_isspace s)))"

text \<open>
  \<open>s.replace(old, new)\<close> scans \<open>s\<close> from the left; wherever \<open>old\<close> starts it emits \<open>new\<close>
  and continues behind the occurrence, so occurrences do not overlap and the output is
  not scanned again. \<open>replace_ne\<close> is the scan for a non-empty \<open>old\<close>; for the empty
  \<open>old\<close> Python inserts \<open>new\<close> before every character and at the end.
\<close>

fun replace_ne :: "'a list \<Rightarrow> 'a list \<Rightarrow> 'a list \<Rightarrow> 'a list" where
  "replace_ne old new [] = []"
| "replace_ne old new (c # cs) =
     (if prefix old (c # cs) then new @ replace_ne old new (drop (length old - 1) cs)
      else c # replace_ne old new cs)"

definition replace_py :: "'a list \<Rightarrow> 'a list \<Rightarrow> 'a list \<Rightarrow> 'a list" where
  "replace_py s old new =
     (if old = [] then new @ concat (map (\<lambda>c. c # new) s) else replace_ne old new s)"

text \<open>\<open>old in s\<close>: the string \<open>old\<close> occurs somewhere in \<open>s\<close>.\<close>

fun contains :: "'a list \<Rightarrow> 'a list \<Rightarrow> bool" where
  "contains old [] = (old = [])"
| "contains old (c # cs) = (prefix old (c # cs) \<or> contains old cs)"

definition backtick :: nat where
  "backtick = 96"

definition fence :: pystr where
  "fence = py ''```''"

definition fence_sql :: pystr where
  "fence_sql = py ''```sql''"

definition newline :: nat where
  "newline = 10"

section \<open>Values, exceptions and the outside world\<close>

text \<open>
  The values \<open>sqlite3\<close> hands to Python: \<open>None\<close>, \<open>int\<close>, \<open>float\<close> (kept as its 64 bits),
  \<open>str\<close> and \<open>bytes\<close>. A row is a tuple of values.
\<close>

datatype sqlval = SqlNull | SqlInt int | SqlReal "64 word" | SqlText pystr | SqlBlob "nat list"

type_synonym row = "sqlval list"

text \<open>
  An exception is an instance of \<open>Exception\<close> (the classes \<open>sqlite3\<close> and the generation
  client raise); all the program ever does with one is format it, so it carries \<open>str(e)\<close>.
\<close>

datatype exn = Exn (message: pystr)

text \<open>The reply of \<open>generate_content\<close>; reading \<open>.text\<close> raises when the reply has no text.\<close>

datatype response = Response (text_attr: "exn + pystr")

text \<open>Every call that leaves the program is recorded, in order.\<close>

datatype event =
    St_error pystr
  | St_stop
  | Genai_configure pystr
  | Genai_GenerativeModel pystr
  | Generate_content pystr
  | Sqlite3_connect pystr
  | Cursor_execute pystr
  | Cursor_fetchall
  | Conn_close
  | St_set_page_config
  | St_sidebar_title
  | St_sidebar_radio
  | St_markdown
  | St_image
  | St_text_input
  | St_button
  | St_success pystr
  | St_code pystr
  | St_subheader pystr
  | St_table "row list"

text \<open>
  A connection made by \<open>sqlite3.connect\<close>. \<open>c_txn\<close> is the database as seen inside the
  transaction the connection has open, if it has one; \<open>c_rows\<close> is what its cursor will
  deliver to \<open>fetchall\<close>.
\<close>

record 'db connection =
  c_path :: pystr
  c_open :: bool
  c_txn :: "'db option"
  c_rows :: "exn + row list"

text \<open>
  The world the program runs in: the committed content of the database file at every
  path (a path with no file holds the empty database), the connections made so far (a
  handle is an index into this list), a counter of the calls made to the outside, which
  stands for everything a remote service or the engine may depend on besides its
  arguments (time, random state), and the record of events.
\<close>

record 'db world =
  files :: "pystr \<Rightarrow> 'db"
  conns :: "'db connection list"
  clock :: nat
  log :: "event list"

text \<open>
  The services the program calls and whose code is not part of it:
  \<^item> \<open>generate\<close>: the remote generation endpoint, from the prompt to its reply or an
    exception;
  \<^item> \<open>openable\<close>: whether \<open>sqlite3.connect\<close> can open the path;
  \<^item> \<open>multi\<close>: whether the string holds more than one SQL statement;
  \<^item> \<open>dml\<close>: whether the string is an \<open>INSERT\<close>, \<open>UPDATE\<close>, \<open>DELETE\<close> or \<open>REPLACE\<close>
    statement;
  \<^item> \<open>run\<close>: the SQL engine on one statement and a database: an exception, or the new
    database and the rows (or the exception that fetching them raises).
\<close>

record 'db services =
  generate :: "nat \<Rightarrow> pystr \<Rightarrow> exn + response"
  openable :: "pystr \<Rightarrow> bool"
  multi :: "pystr \<Rightarrow> bool"
  dml :: "pystr \<Rightarrow> bool"
  run :: "nat \<Rightarrow> pystr \<Rightarrow> 'db \<Rightarrow> exn + 'db \<times> (exn + row list)"

subsection \<open>Computations that change the world and may raise\<close>

type_synonym ('a, 'db) prog = "'db world \<Rightarrow> (exn + 'a) \<times> 'db world"

definition ret :: "'a \<Rightarrow> ('a, 'db) prog" where
  "ret v w = (Inr v, w)"

definition raise :: "exn \<Rightarrow> ('a, 'db) prog" where
  "raise e w = (Inl e, w)"

definition bnd :: "('a, 'db) prog \<Rightarrow> ('a \<Rightarrow> ('b, 'db) prog) \<Rightarrow> ('b, 'db) prog" where
  "bnd m f w = (case m w of (Inl e, w') \<Rightarrow> (Inl e, w') | (Inr v, w') \<Rightarrow> f v w')"

definition try_except :: "('a, 'db) prog \<Rightarrow> (exn \<Rightarrow> ('a, 'db) prog) \<Rightarrow> ('a, 'db) prog" where
  "try_except m h w = (case m w of (Inl e, w') \<Rightarrow> h e w' | (Inr v, w') \<Rightarrow> (Inr v, w'))"

definition emit :: "event \<Rightarrow> (unit, 'db) prog" where
  "emit ev w = (Inr (), w\<lparr>log := log w @ [ev]\<rparr>)"

definition tick :: "(nat, 'db) prog" where
  "tick w = (Inr (clock w), w\<lparr>clock := Suc (clock w)\<rparr>)"

subsection \<open>The generation client\<close>

definition generate_content :: "'db services \<Rightarrow> pystr \<Rightarrow> (response, 'db) prog" where
  "generate_content x prompt =
     bnd (emit (Generate_content prompt)) (\<lambda>_.
     bnd tick (\<lambda>now.
       case generate x now prompt of Inl e \<Rightarrow> raise e | Inr r \<Rightarrow> ret r))"

definition response_text :: "response \<Rightarrow> (pystr, 'db) prog" where
  "response_text r = (case text_attr r of Inl e \<Rightarrow> raise e | Inr t \<Rightarrow> ret t)"

subsection \<open>The \<open>sqlite3\<close> module\<close>

text \<open>
  The calls of Python's \<open>sqlite3\<close> module that the program makes, as the module documents
  them for a connection made with its default arguments:
  \<^item> \<open>sqlite3.connect(path)\<close> makes a new connection, or raises when the path cannot be
    opened;
  \<^item> \<open>cursor.execute(sql)\<close> runs a single statement and raises when the string holds more
    than one. Before an \<open>INSERT\<close>, \<open>UPDATE\<close>, \<open>DELETE\<close> or \<open>REPLACE\<close> statement the
    module opens a transaction if the connection has none; the statement then changes the
    database as seen inside that transaction, and only \<open>commit\<close> would store the
    changes. Every other statement runs outside a transaction and is stored as soon as it
    has run;
  \<^item> \<open>cursor.fetchall()\<close> delivers the rows of the statement, or raises when producing
    them fails;
  \<^item> \<open>conn.close()\<close> closes the connection and does not commit: an open transaction is
    discarded with its changes.

  The cursor is identified with its connection, since the program makes one cursor per
  connection. Two things are left out. The locks that an open connection may hold on the
  file are not modelled: a statement never fails because another connection is open, so
  what is proved about a call holds as stated only where no other connection is open or
  where the property does not depend on it. And the transaction is recorded as open as
  soon as a statement of the four kinds is executed, also when that statement raises
  before running; nothing below reads the transaction of a connection left open.
\<close>

definition sqlite3_connect :: "'db services \<Rightarrow> pystr \<Rightarrow> (nat, 'db) prog" where
  "sqlite3_connect x path =
     bnd (emit (Sqlite3_connect path)) (\<lambda>_ w.
       if openable x path
       then (Inr (length (conns w)),
             w\<lparr>conns := conns w @
                 [\<lparr>c_path = path, c_open = True, c_txn = None, c_rows = Inr []\<rparr>]\<rparr>)
       else (Inl (Exn (py ''unable to open database file'')), w))"

definition conn_cursor :: "nat \<Rightarrow> (nat, 'db) prog" where
  "conn_cursor conn = ret conn"

definition cursor_execute :: "'db services \<Rightarrow> nat \<Rightarrow> pystr \<Rightarrow> (unit, 'db) prog" where
  "cursor_execute x cursor sql =
     bnd (emit (Cursor_execute sql)) (\<lambda>_ w.
       if \<not> (cursor < length (conns w) \<and> c_open (conns w ! cursor))
       then (Inl (Exn (py ''Cannot operate on a closed database.'')), w)
       else if multi x sql
       then (Inl (Exn (py ''You can only execute one statement at a time.'')), w)
       else
         let c = conns w ! cursor;
             c1 = (if dml x sql \<and> c_txn c = None
                   then c\<lparr>c_txn := Some (files w (c_path c))\<rparr> else c);
             w1 = w\<lparr>clock := Suc (clock w)\<rparr>
         in case c_txn c1 of
              Some d \<Rightarrow>
                (case run x (clock w) sql d of
                   Inl e \<Rightarrow> (Inl e, w1\<lparr>conns := (conns w)[cursor := c1]\<rparr>)
                 | Inr (d', res) \<Rightarrow>
                     (Inr (), w1\<lparr>conns := (conns w)
                                 [cursor := c1\<lparr>c_txn := Some d', c_rows := res\<rparr>]\<rparr>))
            | None \<Rightarrow>
                (case run x (clock w) sql (files w (c_path c)) of
                   Inl e \<Rightarrow> (Inl e, w1)
                 | Inr (d', res) \<Rightarrow>
                     (Inr (), w1\<lparr>files := (files w)(c_path c := d'),
                                 conns := (conns w)[cursor := c\<lparr>c_rows := res\<rparr>]\<rparr>)))"

definition cursor_fetchall :: "nat \<Rightarrow> (row list, 'db) prog" where
  "cursor_fetchall cursor =
     bnd (emit Cursor_fetchall) (\<lambda>_ w.
       if \<not> (cursor < length (conns w) \<and> c_open (conns w ! cursor))
       then (Inl (Exn (py ''Cannot operate on a closed database.'')), w)
       else
         let c = conns w ! cursor
         in case c_rows c of
              Inl e \<Rightarrow> (Inl e, w)
            | Inr rows \<Rightarrow> (Inr rows, w\<lparr>conns := (conns w)[cursor := c\<lparr>c_rows := Inr []\<rparr>]\<rparr>))"

definition conn_close :: "nat \<Rightarrow> (unit, 'db) prog" where
  "conn_close conn =
     bnd (emit Conn_close) (\<lambda>_ w.
       if conn < length (conns w)
       then (Inr (), w\<lparr>conns := (conns w)
               [conn := (conns w ! conn)\<lparr>c_open := False, c_txn := None, c_rows := Inr []\<rparr>]\<rparr>)
       else (Inr (), w))"

section \<open>The program\<close>

definition PROMPT :: pystr where
  "PROMPT = [newline] @ concat (map (\<lambda>l. py l @ [newline])
     [''You are an expert in converting English questions to SQL queries.'',
      '''',
      ''The SQLite database has ONE table named Students with the following columns:'',
      ''name, class, marks, company'',
      '''',
      ''Rules:'',
      ''- Only generate valid SQLite SQL'',
      ''- Do NOT explain anything'',
      ''- Do NOT add markdown'',
      ''- Return ONLY the SQL query'',
      '''',
      ''Examples:'',
      '''',
      ''Question: How many entries are present?'',
      ''SQL: SELECT COUNT(*) FROM Students;'',
      '''',
      ''Question: Tell me all the students studying in MCom class?'',
      ''SQL: SELECT * FROM Students WHERE class='MCom';''])"

text \<open>
  \<^verbatim>\<open>
  def get_sql_query(question: str) -> str:
      response = model.generate_content(PROMPT + "\nQuestion: " + question)
      sql = response.text.strip()

      # Safety cleanup
      sql = sql.replace("```sql", "").replace("```", "").strip()
      return sql
  \<close>
  \<open>safety_cleanup\<close> is the two assignments to \<open>sql\<close>, from the text of the reply to the
  returned string.
\<close>

definition safety_cleanup :: "pystr \<Rightarrow> pystr" where
  "safety_cleanup t =
     (let sql = strip t
      in strip (replace_py (replace_py sql fence_sql []) fence []))"

definition get_sql_query :: "'db services \<Rightarrow> pystr \<Rightarrow> (pystr, 'db) prog" where
  "get_sql_query x question =
     bnd (generate_content x (PROMPT @ [newline] @ py ''Question: '' @ question)) (\<lambda>response.
     bnd (response_text response) (\<lambda>t.
       ret (safety_cleanup t)))"

text \<open>
  \<^verbatim>\<open>
  def execute_sql(sql: str, db_path: str):
      conn = sqlite3.connect(db_path)
      cursor = conn.cursor()
      cursor.execute(sql)
      rows = cursor.fetchall()
      conn.close()
      return rows
  \<close>
\<close>

definition execute_sql :: "'db services \<Rightarrow> pystr \<Rightarrow> pystr \<Rightarrow> (row list, 'db) prog" where
  "execute_sql x sql db_path =
     bnd (sqlite3_connect x db_path) (\<lambda>conn.
     bnd (conn_cursor conn) (\<lambda>cursor.
     bnd (cursor_execute x cursor sql) (\<lambda>_.
     bnd (cursor_fetchall cursor) (\<lambda>rows.
     bnd (conn_close conn) (\<lambda>_.
       ret rows)))))"

text \<open>
  The pages. Of the static markup only the kind of each call is recorded.
\<close>

definition page_home :: "(unit, 'db) prog" where
  "page_home =
     bnd (emit St_markdown) (\<lambda>_.
     bnd (emit St_markdown) (\<lambda>_.
     bnd (emit St_markdown) (\<lambda>_.
       emit St_image)))"

definition page_about :: "(unit, 'db) prog" where
  "page_about =
     bnd (emit St_markdown) (\<lambda>_.
     bnd (emit St_markdown) (\<lambda>_.
       emit St_markdown))"

definition error_prefix :: pystr where
  "error_prefix = [10060] @ py '' Error: ''"

text \<open>
  \<^verbatim>\<open>
  def page_query():
      st.markdown(...)
      question = st.text_input("Enter your question in English:")
      submit = st.button("Generate & Execute SQL")

      if submit and question:
          try:
              sql = get_sql_query(question)
              st.success("Generated SQL:")
              st.code(sql, language="sql")

              results = execute_sql(sql, "data.db")
              st.subheader("Query Result:")
              st.table(results)

          except Exception as e:
              st.error(f"<U+274C> Error: {e}")
  \<close>
  \<open>question\<close> and \<open>submit\<close> are what \<open>st.text_input\<close> and \<open>st.button\<close> return in this run
  of the page. The first character of the error message is the code point 10060.
\<close>

definition page_query :: "'db services \<Rightarrow> pystr \<Rightarrow> bool \<Rightarrow> (unit, 'db) prog" where
  "page_query x question submit =
     bnd (emit St_markdown) (\<lambda>_.
     bnd (emit St_text_input) (\<lambda>_.
     bnd (emit St_button) (\<lambda>_.
       if submit \<and> question \<noteq> [] then
         try_except
           (bnd (get_sql_query x question) (\<lambda>sql.
            bnd (emit (St_success (py ''Generated SQL:''))) (\<lambda>_.
            bnd (emit (St_code sql)) (\<lambda>_.
            bnd (execute_sql x sql (py ''data.db'')) (\<lambda>results.
            bnd (emit (St_subheader (py ''Query Result:''))) (\<lambda>_.
              emit (St_table results)))))))
           (\<lambda>e. emit (St_error (error_prefix @ message e)))
       else ret ())))"

text \<open>What the user does in one run of the script.\<close>

record ui =
  ui_choice :: pystr
  ui_question :: pystr
  ui_submit :: bool

definition main :: "'db services \<Rightarrow> ui \<Rightarrow> (unit, 'db) prog" where
  "main x u =
     bnd (emit St_set_page_config) (\<lambda>_.
     bnd (emit St_sidebar_title) (\<lambda>_.
     bnd (emit St_sidebar_radio) (\<lambda>_.
       if ui_choice u = py ''Home'' then page_home
       else if ui_choice u = py ''About'' then page_about
       else page_query x (ui_question u) (ui_submit u))))"

text \<open>
  \<^verbatim>\<open>
  load_dotenv()

  API_KEY = os.getenv("GOOGLE_API_KEY")
  if not API_KEY:
      st.error("<U+274C> GOOGLE_API_KEY not found in .env file")
      st.stop()

  genai.configure(api_key=API_KEY)

  model = genai.GenerativeModel("gemini-1.5-flash")
  ...
  if __name__ == "__main__":
      main()
  \<close>
  One run of the script, from the first line of the module. \<open>environ\<close> is the process
  environment after \<open>load_dotenv()\<close>; \<open>not API_KEY\<close> holds for a missing and for an empty
  value. \<open>st.stop()\<close> ends the run at once.
\<close>

datatype outcome = Finished | Stopped | Uncaught exn

definition missing_key_message :: pystr where
  "missing_key_message = [10060] @ py '' GOOGLE_API_KEY not found in .env file''"

definition script :: "'db services \<Rightarrow> (pystr \<rightharpoonup> pystr) \<Rightarrow> ui \<Rightarrow> 'db world \<Rightarrow> outcome \<times> 'db world" where
  "script x environ u w =
     (let API_KEY = environ (py ''GOOGLE_API_KEY'')
      in if API_KEY = None \<or> API_KEY = Some []
         then (Stopped, snd (bnd (emit (St_error missing_key_message)) (\<lambda>_. emit St_stop) w))
         else
           case bnd (emit (Genai_configure (the API_KEY))) (\<lambda>_.
                bnd (emit (Genai_GenerativeModel (py ''gemini-1.5-flash''))) (\<lambda>_.
                  main x u)) w of
             (Inl e, w') \<Rightarrow> (Uncaught e, w')
           | (Inr _, w') \<Rightarrow> (Finished, w'))"

section \<open>Observations\<close>

text \<open>
  The events a computation added to the record, and the tables among them that
  \<open>st.table\<close> displayed.
\<close>

definition new_events :: "'db world \<Rightarrow> 'db world \<Rightarrow> event list" where
  "new_events w w' = drop (length (log w)) (log w')"

definition shown_tables :: "event list \<Rightarrow> row list list" where
  "shown_tables evs = concat (map (\<lambda>ev. case ev of St_table rows \<Rightarrow> [rows] | _ \<Rightarrow> []) evs)"

text \<open>
  The number of copies of \<open>c\<close> a string starts with.
\<close>

definition lead :: "'a \<Rightarrow> 'a list \<Rightarrow> nat" where
  "lead c s = length (takeWhile (\<lambda>d. d = c) s)"

section \<open>The SQL engine on the counting statement\<close>










text \<open>
  A database: the rows of the table Students, if it exists, and everything else.
\<close>

record 'o database =
  students :: "row list option"
  other_objects :: 'o


section \<open>An instance of the services\<close>

text \<open>
  A small instance on which the model can be evaluated. Its database is the content of
  the Students table, if the table exists. Its engine knows four statements; the result
  of \<open>SELECT random()\<close> is taken from the counter of calls, as the result of the real
  function is taken from a state outside the database. A string is rejected as holding
  several statements when text follows its first semicolon, and is of the kind that
  opens a transaction when it starts with \<open>INSERT\<close>, \<open>UPDATE\<close>, \<open>DELETE\<close> or
  \<open>REPLACE\<close>. The generation endpoint answers every prompt with the same reply.
\<close>

definition demo_multi :: "pystr \<Rightarrow> bool" where
  "demo_multi sql \<longleftrightarrow> dropWhile py_isspace (drop 1 (dropWhile (\<lambda>c. c \<noteq> 59) sql)) \<noteq> []"

definition demo_dml :: "pystr \<Rightarrow> bool" where
  "demo_dml sql \<longleftrightarrow>
     prefix (py ''INSERT'') sql \<or> prefix (py ''UPDATE'') sql \<or>
     prefix (py ''DELETE'') sql \<or> prefix (py ''REPLACE'') sql"

definition demo_run :: "nat \<Rightarrow> pystr \<Rightarrow> row list option \<Rightarrow> exn + row list option \<times> (exn + row list)" where
  "demo_run now sql d =
     (if sql = py ''SELECT random();'' then Inr (d, Inr [ [SqlInt (int now)] ])
      else if sql \<notin> {py ''SELECT COUNT(*) FROM Students;'', py ''DELETE FROM Students;'',
                      py ''DROP TABLE Students;''}
      then Inl (Exn (py ''syntax error''))
      else case d of
             None \<Rightarrow> Inl (Exn (py ''no such table: Students''))
           | Some rs \<Rightarrow>
               if sql = py ''SELECT COUNT(*) FROM Students;''
               then Inr (d, Inr [ [SqlInt (int (length rs))] ])
               else if sql = py ''DELETE FROM Students;'' then Inr (Some [], Inr [])
               else Inr (None, Inr []))"

definition demo :: "exn + response \<Rightarrow> row list option services" where
  "demo reply =
     \<lparr>generate = (\<lambda>now prompt. reply), openable = (\<lambda>path. True),
      multi = demo_multi, dml = demo_dml, run = demo_run\<rparr>"

definition demo_world :: "row list option world" where
  "demo_world =
     \<lparr>files = (\<lambda>path. if path = py ''data.db''
                then Some [ [SqlText (py ''Asha''), SqlText (py ''MCom''), SqlInt 82, SqlText (py ''Infosys'')],
                           [SqlText (py ''Ravi''), SqlText (py ''BSc''), SqlInt 67, SqlText (py ''TCS'')] ]
                else None),
      conns = [], clock = 0, log = []\<rparr>"



section \<open>Properties of the string operations\<close>

lemma contains_sublist: "contains old s \<longleftrightarrow> sublist old s"
  by (induction s) (auto simp: sublist_Cons_right)

lemma prefix3_lead: "prefix [c, c, c] s \<longleftrightarrow> 3 \<le> lead c s"
  unfolding lead_def
  apply (cases s; simp)
  subgoal for a s1
    apply (cases s1; simp)
    subgoal for b s2
      by (cases s2; auto)
    done
  done

lemma lead_replace_aux:
  "old = [c, c, c] \<Longrightarrow> new = [] \<Longrightarrow> lead c (replace_ne old new s) = lead c s mod 3"
proof (induction old new s rule: replace_ne.induct)
  case (1 old new)
  show ?case by (simp add: lead_def)
next
  case (2 old new d ds)
  show ?case
  proof (cases "prefix old (d # ds)")
    case True
    then obtain r where r: "d # ds = [c, c, c] @ r" using 2(3) by (auto simp: prefix_def)
    then have dr: "drop (length old - 1) ds = r" using 2(3) by auto
    have "lead c (d # ds) = 3 + lead c r" using r by (simp add: lead_def)
    moreover have "replace_ne old new (d # ds) = replace_ne old new r"
      using True dr 2(4) by simp
    moreover have "lead c (replace_ne old new r) = lead c r mod 3"
      using 2(1)[OF True 2(3) 2(4)] dr by simp
    ultimately show ?thesis by simp
  next
    case False
    then have "\<not> 3 \<le> lead c (d # ds)" unfolding 2(3) prefix3_lead .
    then have lt: "lead c (d # ds) < 3" by simp
    have step: "replace_ne old new (d # ds) = d # replace_ne old new ds"
      using False by simp
    show ?thesis
    proof (cases "d = c")
      case True
      then have "lead c ds < 2" using lt by (simp add: lead_def)
      moreover have "lead c (replace_ne old new ds) = lead c ds mod 3"
        using 2(2)[OF False 2(3) 2(4)] .
      ultimately show ?thesis using True step by (simp add: lead_def)
    next
      case ne: False
      then show ?thesis using step by (simp add: lead_def)
    qed
  qed
qed

lemma no_triple_aux:
  "old = [c, c, c] \<Longrightarrow> new = [] \<Longrightarrow> \<not> contains old (replace_ne old new s)"
proof (induction old new s rule: replace_ne.induct)
  case (1 old new)
  then show ?case by simp
next
  case (2 old new d ds)
  show ?case
  proof (cases "prefix old (d # ds)")
    case True
    with 2(1)[OF True 2(3) 2(4)] 2(4) show ?thesis by simp
  next
    case False
    have "lead c (replace_ne old new (d # ds)) < 3"
      using lead_replace_aux[OF 2(3) 2(4), of "d # ds"] by (simp del: replace_ne.simps)
    then have "\<not> 3 \<le> lead c (replace_ne old new (d # ds))" by simp
    then have np: "\<not> prefix old (replace_ne old new (d # ds))"
      unfolding 2(3) prefix3_lead .
    have step: "replace_ne old new (d # ds) = d # replace_ne old new ds"
      using False by simp
    from np step 2(2)[OF False 2(3) 2(4)] show ?thesis by simp
  qed
qed

lemma no_triple_after_replace: "\<not> contains [c, c, c] (replace_ne [c, c, c] [] s)"
  by (rule no_triple_aux) simp_all

lemma sublist_trans: "sublist xs ys \<Longrightarrow> sublist ys zs \<Longrightarrow> sublist xs zs"
  unfolding sublist_def by (metis append.assoc)

lemma strip_sublist: "sublist (strip s) s"
proof -
  have "prefix (rev (dropWhile py_isspace (rev t))) t" for t
  proof -
    have "rev t = takeWhile py_isspace (rev t) @ dropWhile py_isspace (rev t)" by simp
    then have "t = rev (dropWhile py_isspace (rev t)) @ rev (takeWhile py_isspace (rev t))"
      by (metis rev_append rev_rev_ident)
    then show ?thesis by (metis prefixI)
  qed
  then have "sublist (strip s) (dropWhile py_isspace s)"
    unfolding strip_def by (rule prefix_imp_sublist)
  moreover have "sublist (dropWhile py_isspace s) s"
    by (rule suffix_imp_sublist) (rule suffix_dropWhile)
  ultimately show ?thesis by (rule sublist_trans)
qed

lemma contains_strip: "contains old (strip s) \<Longrightarrow> contains old s"
  unfolding contains_sublist using strip_sublist sublist_trans by blast

lemma set_strip: "set (strip s) \<subseteq> set s"
  using set_mono_sublist[OF strip_sublist] .

lemma strip_ends:
  "strip s \<noteq> [] \<Longrightarrow> \<not> py_isspace (hd (strip s)) \<and> \<not> py_isspace (last (strip s))"
proof -
  assume ne: "strip s \<noteq> []"
  let ?t = "dropWhile py_isspace (rev (dropWhile py_isspace s))"
  have t: "?t \<noteq> []" using ne by (simp add: strip_def)
  then have h: "\<not> py_isspace (hd ?t)" by (rule hd_dropWhile)
  have "last (strip s) = hd ?t" using t by (simp add: strip_def last_rev)
  with h have l: "\<not> py_isspace (last (strip s))" by simp
  have "hd (strip s) = last ?t" using t by (simp add: strip_def hd_rev)
  also have "\<dots> = last (rev (dropWhile py_isspace s))"
    using t by (metis last_appendR takeWhile_dropWhile_id)
  also have "\<dots> = hd (dropWhile py_isspace s)"
    using t by (metis dropWhile.simps(1) last_rev rev.simps(1) rev_rev_ident)
  finally have "hd (strip s) = hd (dropWhile py_isspace s)" .
  moreover have "dropWhile py_isspace s \<noteq> []"
  proof
    assume "dropWhile py_isspace s = []"
    then have "?t = []" by (simp only: rev.simps(1) dropWhile.simps(1))
    with t show False by simp
  qed
  ultimately have "\<not> py_isspace (hd (strip s))" by (simp add: hd_dropWhile)
  with l show ?thesis by simp
qed

lemma fence_eq: "fence = [backtick, backtick, backtick]"
  by (simp add: fence_def py_def backtick_def)

lemma fence_sql_eq: "fence_sql = fence @ py ''sql''"
  by (simp add: fence_def fence_sql_def py_def)

lemma fence_ne: "fence \<noteq> []" "fence_sql \<noteq> []"
  by (simp_all add: fence_eq fence_sql_eq)

lemma py_sql: "py ''sql'' = [115, 113, 108]"
  by (simp add: py_def)

lemma cleanup_no_fence: "\<not> contains fence (safety_cleanup t)"
proof -
  have "\<not> contains fence (replace_py (replace_py (strip t) fence_sql []) fence [])"
    unfolding fence_eq replace_py_def by (simp add: no_triple_after_replace)
  then show ?thesis
    unfolding safety_cleanup_def Let_def using contains_strip by blast
qed

lemma cleanup_no_fence_sql: "\<not> contains fence_sql (safety_cleanup t)"
proof
  assume "contains fence_sql (safety_cleanup t)"
  then have "sublist (fence @ py ''sql'') (safety_cleanup t)"
    by (simp add: contains_sublist fence_sql_eq)
  then have "sublist fence (safety_cleanup t)"
    using sublist_trans sublist_append_rightI by blast
  then show False using cleanup_no_fence by (simp add: contains_sublist)
qed

lemma cleanup_ends:
  "safety_cleanup raw \<noteq> [] \<Longrightarrow>
   \<not> py_isspace (hd (safety_cleanup raw)) \<and> \<not> py_isspace (last (safety_cleanup raw))"
  unfolding safety_cleanup_def Let_def by (rule strip_ends)

text \<open>
  A reply that starts and ends with a fence and has no backtick in between: the first
  replacement removes the opening fence when the tag starts with \<open>sql\<close>, the second
  removes every fence that is left.
\<close>

lemma replace_ne_skip:
  "p \<notin> set a \<Longrightarrow> replace_ne (p # ps) new (a @ t) = a @ replace_ne (p # ps) new t"
  by (induction a) auto

lemma replace_fence_sql_fenced:
  assumes "backtick \<notin> set mid"
  shows "replace_ne fence_sql [] (fence @ mid @ fence) =
           (if prefix (py ''sql'') mid then drop 3 mid @ fence else fence @ mid @ fence)"
proof (cases "prefix (py ''sql'') mid")
  case True
  then obtain m where m: "mid = py ''sql'' @ m" by (auto simp: prefix_def)
  then have bm: "backtick \<notin> set m" using assms by simp
  have "replace_ne fence_sql [] (fence @ mid @ fence) = replace_ne fence_sql [] (m @ fence)"
    by (simp add: m fence_sql_eq fence_eq py_sql)
  also have "\<dots> = m @ replace_ne fence_sql [] fence"
    using replace_ne_skip[OF bm] by (simp add: fence_sql_eq fence_eq)
  also have "replace_ne fence_sql [] fence = fence"
    by (simp add: fence_sql_eq fence_eq py_sql)
  finally show ?thesis using True by (simp add: m py_sql)
next
  case False
  have np: "\<not> prefix (py ''sql'') (mid @ fence)"
  proof
    assume "prefix (py ''sql'') (mid @ fence)"
    with False obtain us where us: "py ''sql'' = mid @ us" "prefix us fence" "us \<noteq> []"
      by (auto simp: prefix_append)
    then have "hd us = backtick" by (cases us) (auto simp: fence_eq)
    moreover have "hd us \<in> set (py ''sql'')" using us by (cases us) auto
    ultimately show False by (simp add: py_sql backtick_def)
  qed
  have hd_mid: "mid \<noteq> [] \<Longrightarrow> hd mid \<noteq> backtick" using assms by (cases mid) auto
  have a: "replace_ne fence_sql [] (fence @ mid @ fence) =
           backtick # replace_ne fence_sql [] ([backtick, backtick] @ mid @ fence)"
    using np by (simp add: fence_sql_eq fence_eq)
  have b: "replace_ne fence_sql [] ([backtick, backtick] @ mid @ fence) =
           backtick # replace_ne fence_sql [] ([backtick] @ mid @ fence)"
    using hd_mid by (cases mid) (auto simp: fence_sql_eq fence_eq py_sql backtick_def)
  have c: "replace_ne fence_sql [] ([backtick] @ mid @ fence) =
           backtick # replace_ne fence_sql [] (mid @ fence)"
    using hd_mid by (cases mid) (auto simp: fence_sql_eq fence_eq py_sql backtick_def)
  have d: "replace_ne fence_sql [] (mid @ fence) = mid @ replace_ne fence_sql [] fence"
    using replace_ne_skip[OF assms] by (simp add: fence_sql_eq fence_eq)
  have e: "replace_ne fence_sql [] fence = fence"
    by (simp add: fence_sql_eq fence_eq py_sql)
  have "replace_ne fence_sql [] (fence @ mid @ fence) =
          backtick # backtick # backtick # mid @ fence"
    by (simp only: a b c d e)
  also have "\<dots> = fence @ mid @ fence" by (simp add: fence_eq)
  finally show ?thesis using False by simp
qed

lemma replace_fence_tail:
  assumes "backtick \<notin> set m"
  shows "replace_ne fence [] (m @ fence) = m"
proof -
  have "replace_ne fence [] (m @ fence) = m @ replace_ne fence [] fence"
    using replace_ne_skip[OF assms] by (simp add: fence_eq)
  then show ?thesis by (simp add: fence_eq)
qed

lemma replace_fence_fenced:
  assumes "backtick \<notin> set m"
  shows "replace_ne fence [] (fence @ m @ fence) = m"
proof -
  have "replace_ne fence [] (fence @ m @ fence) = replace_ne fence [] (m @ fence)"
    by (simp add: fence_eq)
  then show ?thesis using replace_fence_tail[OF assms] by simp
qed

lemma cleanup_stripped_fenced:
  assumes "strip raw = fence @ mid @ fence" "backtick \<notin> set mid"
  shows "backtick \<notin> set (safety_cleanup raw)"
proof -
  have d: "backtick \<notin> set (drop 3 mid)" using assms(2) by (meson in_set_dropD)
  have "safety_cleanup raw = strip (if prefix (py ''sql'') mid then drop 3 mid else mid)"
    using assms d
    by (simp add: safety_cleanup_def replace_py_def fence_ne
        replace_fence_sql_fenced replace_fence_tail replace_fence_fenced)
  then show ?thesis using assms(2) d set_strip by auto
qed

section \<open>The program, step by step\<close>

lemma bnd_emit: "bnd (emit ev) f w = f () (w\<lparr>log := log w @ [ev]\<rparr>)"
  by (simp add: bnd_def emit_def)

lemma connect_ok:
  "openable x p \<Longrightarrow> sqlite3_connect x p w =
     (Inr (length (conns w)),
      w\<lparr>log := log w @ [Sqlite3_connect p],
        conns := conns w @ [\<lparr>c_path = p, c_open = True, c_txn = None, c_rows = Inr []\<rparr>]\<rparr>)"
  by (simp add: sqlite3_connect_def bnd_emit)

lemma connect_fail:
  "\<not> openable x p \<Longrightarrow> sqlite3_connect x p w =
     (Inl (Exn (py ''unable to open database file'')), w\<lparr>log := log w @ [Sqlite3_connect p]\<rparr>)"
  by (simp add: sqlite3_connect_def bnd_emit)

lemma connect_Inr:
  "sqlite3_connect x p w = (Inr conn, w1) \<Longrightarrow>
     conn = length (conns w) \<and> openable x p \<and>
     w1 = w\<lparr>log := log w @ [Sqlite3_connect p],
        conns := conns w @ [\<lparr>c_path = p, c_open = True, c_txn = None, c_rows = Inr []\<rparr>]\<rparr>"
  by (cases "openable x p") (auto simp: connect_ok connect_fail)

lemma execute_Inl:
  "cursor_execute x c sql w = (Inl e, w2) \<Longrightarrow> c < length (conns w) \<Longrightarrow> c_open (conns w ! c) \<Longrightarrow>
     length (conns w2) = length (conns w) \<and> c_open (conns w2 ! c) \<and>
     log w2 = log w @ [Cursor_execute sql]"
  by (auto simp: cursor_execute_def bnd_emit Let_def split: if_splits option.splits sum.splits prod.splits)

lemma execute_Inl_path:
  "cursor_execute x c sql w = (Inl e, w2) \<Longrightarrow> c < length (conns w) \<Longrightarrow> c_open (conns w ! c) \<Longrightarrow>
     c_path (conns w2 ! c) = c_path (conns w ! c)"
  by (auto simp: cursor_execute_def bnd_emit Let_def split: if_splits option.splits sum.splits prod.splits)

lemma execute_Inr:
  "cursor_execute x c sql w = (Inr u, w2) \<Longrightarrow> c < length (conns w) \<Longrightarrow> c_open (conns w ! c) \<Longrightarrow>
     length (conns w2) = length (conns w) \<and> c_open (conns w2 ! c) \<and>
     c_path (conns w2 ! c) = c_path (conns w ! c) \<and>
     log w2 = log w @ [Cursor_execute sql]"
  by (auto simp: cursor_execute_def bnd_emit Let_def split: if_splits option.splits sum.splits prod.splits)

lemma fetchall_Inl:
  "cursor_fetchall c w = (Inl e, w3) \<Longrightarrow>
     conns w3 = conns w \<and> log w3 = log w @ [Cursor_fetchall]"
  by (auto simp: cursor_fetchall_def bnd_emit Let_def split: if_splits sum.splits)

lemma get_sql_query_eq:
  "get_sql_query x q w =
     ((case generate x (clock w) (PROMPT @ [newline] @ py ''Question: '' @ q) of
         Inl e \<Rightarrow> Inl e
       | Inr r \<Rightarrow> (case text_attr r of Inl e \<Rightarrow> Inl e | Inr t \<Rightarrow> Inr (safety_cleanup t))),
      w\<lparr>clock := Suc (clock w),
        log := log w @ [Generate_content (PROMPT @ [newline] @ py ''Question: '' @ q)]\<rparr>)"
  by (simp add: get_sql_query_def generate_content_def response_text_def bnd_def emit_def tick_def
      raise_def ret_def split: sum.splits)

text \<open>
  Everything \<open>execute_sql\<close> can do: the path cannot be opened; the string holds several
  statements; the engine raises; fetching raises; or the rows are returned and the
  connection is closed. Only in the last case is \<open>close\<close> reached.
\<close>

lemma execute_sql_cases:
  "execute_sql x sql p w =
     (if \<not> openable x p
      then (Inl (Exn (py ''unable to open database file'')),
            w\<lparr>log := log w @ [Sqlite3_connect p]\<rparr>)
      else if multi x sql
      then (Inl (Exn (py ''You can only execute one statement at a time.'')),
            w\<lparr>conns := conns w @ [\<lparr>c_path = p, c_open = True, c_txn = None, c_rows = Inr []\<rparr>],
              log := log w @ [Sqlite3_connect p, Cursor_execute sql]\<rparr>)
      else case run x (clock w) sql (files w p) of
             Inl e \<Rightarrow>
               (Inl e,
                w\<lparr>conns := conns w @
                    [\<lparr>c_path = p, c_open = True,
                      c_txn = (if dml x sql then Some (files w p) else None), c_rows = Inr []\<rparr>],
                  clock := Suc (clock w),
                  log := log w @ [Sqlite3_connect p, Cursor_execute sql]\<rparr>)
           | Inr (d', Inl e) \<Rightarrow>
               (Inl e,
                w\<lparr>files := (if dml x sql then files w else (files w)(p := d')),
                  conns := conns w @
                    [\<lparr>c_path = p, c_open = True,
                      c_txn = (if dml x sql then Some d' else None), c_rows = Inl e\<rparr>],
                  clock := Suc (clock w),
                  log := log w @ [Sqlite3_connect p, Cursor_execute sql, Cursor_fetchall]\<rparr>)
           | Inr (d', Inr rows) \<Rightarrow>
               (Inr rows,
                w\<lparr>files := (if dml x sql then files w else (files w)(p := d')),
                  conns := conns w @
                    [\<lparr>c_path = p, c_open = False, c_txn = None, c_rows = Inr []\<rparr>],
                  clock := Suc (clock w),
                  log := log w @ [Sqlite3_connect p, Cursor_execute sql, Cursor_fetchall,
                                  Conn_close]\<rparr>))"
  by (simp add: execute_sql_def connect_ok connect_fail bnd_def conn_cursor_def ret_def
      cursor_execute_def cursor_fetchall_def conn_close_def emit_def Let_def nth_append
      split: sum.splits prod.splits)

lemma new_events_append: "log w' = log w @ evs \<Longrightarrow> new_events w w' = evs"
  by (simp add: new_events_def)

lemma execute_sql_log:
  "log (snd (execute_sql x sql p w)) = log w @ new_events w (snd (execute_sql x sql p w))"
  by (simp add: execute_sql_cases new_events_def split: sum.splits prod.splits)

lemma execute_sql_det:
  assumes r: "\<And>i. run x i sql = R" and f: "files w p = files w' p"
  shows "fst (execute_sql x sql p w) = fst (execute_sql x sql p w') \<and>
         new_events w (snd (execute_sql x sql p w)) = new_events w' (snd (execute_sql x sql p w'))"
  by (simp add: execute_sql_cases new_events_def r f split: sum.splits prod.splits)

lemma page_query_no_raise: "fst (page_query x q s w) = Inr ()"
  by (simp add: page_query_def bnd_emit try_except_def emit_def ret_def split: prod.splits sum.splits)

lemma page_query_idle:
  "\<not> (s \<and> q \<noteq> []) \<Longrightarrow>
   page_query x q s w = (Inr (), w\<lparr>log := log w @ [St_markdown, St_text_input, St_button]\<rparr>)"
  by (auto simp add: page_query_def bnd_emit ret_def)

lemma page_query_run:
  assumes "s" "q \<noteq> []"
  shows "page_query x q s w =
    (let w3 = w\<lparr>log := log w @ [St_markdown, St_text_input, St_button]\<rparr>
     in case get_sql_query x q w3 of
          (Inl e, w4) \<Rightarrow> (Inr (), w4\<lparr>log := log w4 @ [St_error (error_prefix @ message e)]\<rparr>)
        | (Inr sql, w4) \<Rightarrow>
            (case execute_sql x sql (py ''data.db'')
                    (w4\<lparr>log := log w4 @ [St_success (py ''Generated SQL:''), St_code sql]\<rparr>) of
               (Inl e, w6) \<Rightarrow> (Inr (), w6\<lparr>log := log w6 @ [St_error (error_prefix @ message e)]\<rparr>)
             | (Inr results, w6) \<Rightarrow>
                 (Inr (), w6\<lparr>log := log w6 @
                    [St_subheader (py ''Query Result:''), St_table results]\<rparr>)))"
  using assms
  by (simp add: page_query_def bnd_emit try_except_def bnd_def emit_def Let_def
      split: prod.splits sum.splits)

lemma page_query_det:
  assumes g: "\<And>i. generate x i = G"
    and r: "\<And>sql i. fst (get_sql_query x q w) = Inr sql \<Longrightarrow> run x i sql = R sql"
    and f: "files w = files w'"
  shows "new_events w (snd (page_query x q s w)) = new_events w' (snd (page_query x q s w'))"
proof (cases "s \<and> q \<noteq> []")
  case False
  then show ?thesis by (simp add: page_query_idle new_events_def)
next
  case True
  let ?p = "PROMPT @ [newline] @ py ''Question: '' @ q"
  let ?res = "case G ?p of Inl e \<Rightarrow> Inl e
       | Inr r \<Rightarrow> (case text_attr r of Inl e \<Rightarrow> Inl e | Inr t \<Rightarrow> Inr (safety_cleanup t))"
  show ?thesis
  proof (cases ?res)
    case (Inl e)
    then show ?thesis using True
      by (simp add: page_query_run get_sql_query_eq g new_events_def)
  next
    case (Inr sql)
    then have "fst (get_sql_query x q w) = Inr sql" by (simp add: get_sql_query_eq g)
    then have rs: "\<And>i. run x i sql = R sql" by (rule r)
    let ?w5 = "\<lambda>w::'a world. w\<lparr>clock := Suc (clock w),
        log := log w @ [St_markdown, St_text_input, St_button, Generate_content ?p,
                        St_success (py ''Generated SQL:''), St_code sql]\<rparr>"
    have d: "fst (execute_sql x sql (py ''data.db'') (?w5 w)) =
             fst (execute_sql x sql (py ''data.db'') (?w5 w'))"
      "new_events (?w5 w) (snd (execute_sql x sql (py ''data.db'') (?w5 w))) =
       new_events (?w5 w') (snd (execute_sql x sql (py ''data.db'') (?w5 w')))"
      using execute_sql_det[of x sql "R sql" "?w5 w" "py ''data.db''" "?w5 w'", OF rs] f by simp_all
    have l: "\<And>v. log (snd (execute_sql x sql (py ''data.db'') (?w5 v))) =
             log v @ [St_markdown, St_text_input, St_button, Generate_content ?p,
                        St_success (py ''Generated SQL:''), St_code sql] @
             new_events (?w5 v) (snd (execute_sql x sql (py ''data.db'') (?w5 v)))"
      using execute_sql_log[of x sql "py ''data.db''" "?w5 _"] by simp
    have pq: "\<And>v. page_query x q s v =
        (case execute_sql x sql (py ''data.db'') (?w5 v) of
               (Inl e, w6) \<Rightarrow> (Inr (), w6\<lparr>log := log w6 @ [St_error (error_prefix @ message e)]\<rparr>)
             | (Inr results, w6) \<Rightarrow>
                 (Inr (), w6\<lparr>log := log w6 @
                    [St_subheader (py ''Query Result:''), St_table results]\<rparr>))"
      using True Inr by (simp add: page_query_run get_sql_query_eq g)
    have ne: "\<And>v. new_events v (snd (page_query x q s v)) =
        [St_markdown, St_text_input, St_button, Generate_content ?p,
                        St_success (py ''Generated SQL:''), St_code sql] @
             new_events (?w5 v) (snd (execute_sql x sql (py ''data.db'') (?w5 v))) @
        (case fst (execute_sql x sql (py ''data.db'') (?w5 v)) of
           Inl e \<Rightarrow> [St_error (error_prefix @ message e)]
         | Inr results \<Rightarrow> [St_subheader (py ''Query Result:''), St_table results])"
    proof -
      fix v
      obtain r6 w6 where e: "execute_sql x sql (py ''data.db'') (?w5 v) = (r6, w6)"
        by (cases "execute_sql x sql (py ''data.db'') (?w5 v)")
      define evs where "evs = new_events (?w5 v) w6"
      have lw: "log w6 = log v @ [St_markdown, St_text_input, St_button, Generate_content ?p,
                        St_success (py ''Generated SQL:''), St_code sql] @ evs"
        using l[of v] unfolding e evs_def by simp
      show "?thesis v"
      proof (cases r6)
        case (Inl a)
        have "new_events v (w6\<lparr>log := log w6 @ [St_error (error_prefix @ message a)]\<rparr>) =
              [St_markdown, St_text_input, St_button, Generate_content ?p,
                        St_success (py ''Generated SQL:''), St_code sql] @ evs @
              [St_error (error_prefix @ message a)]"
          by (rule new_events_append) (simp add: lw)
        then show ?thesis unfolding pq e evs_def Inl by simp
      next
        case (Inr b)
        have "new_events v (w6\<lparr>log := log w6 @
                [St_subheader (py ''Query Result:''), St_table b]\<rparr>) =
              [St_markdown, St_text_input, St_button, Generate_content ?p,
                        St_success (py ''Generated SQL:''), St_code sql] @ evs @
              [St_subheader (py ''Query Result:''), St_table b]"
          by (rule new_events_append) (simp add: lw)
        then show ?thesis unfolding pq e evs_def Inr by simp
      qed
    qed
    show ?thesis unfolding ne d ..
  qed
qed

lemma page_query_generates:
  assumes "s" "q \<noteq> []"
  shows "Generate_content (PROMPT @ [newline] @ py ''Question: '' @ q)
           \<in> set (new_events w (snd (page_query x q s w)))"
proof -
  let ?p = "PROMPT @ [newline] @ py ''Question: '' @ q"
  let ?pre = "[St_markdown, St_text_input, St_button, Generate_content ?p]"
  have "\<exists>evs. log (snd (page_query x q s w)) = log w @ ?pre @ evs"
  proof (cases "fst (get_sql_query x q (w\<lparr>log := log w @ [St_markdown, St_text_input, St_button]\<rparr>))")
    case (Inl e)
    then show ?thesis
      by (simp add: page_query_run[OF assms] get_sql_query_eq)
  next
    case (Inr sql)
    let ?w5 = "w\<lparr>clock := Suc (clock w),
        log := log w @ [St_markdown, St_text_input, St_button, Generate_content ?p,
                        St_success (py ''Generated SQL:''), St_code sql]\<rparr>"
    obtain r6 w6 where e: "execute_sql x sql (py ''data.db'') ?w5 = (r6, w6)"
      by (cases "execute_sql x sql (py ''data.db'') ?w5")
    have "log w6 = log ?w5 @ new_events ?w5 w6"
      using execute_sql_log[of x sql "py ''data.db''" ?w5] unfolding e by simp
    then have l: "log w6 = log w @ ?pre @ [St_success (py ''Generated SQL:''), St_code sql] @
        new_events ?w5 w6" by simp
    have "page_query x q s w =
        (case (r6, w6) of
               (Inl e, w6) \<Rightarrow> (Inr (), w6\<lparr>log := log w6 @ [St_error (error_prefix @ message e)]\<rparr>)
             | (Inr results, w6) \<Rightarrow>
                 (Inr (), w6\<lparr>log := log w6 @
                    [St_subheader (py ''Query Result:''), St_table results]\<rparr>))"
      using Inr unfolding e[symmetric] by (simp add: page_query_run[OF assms] get_sql_query_eq)
    then show ?thesis using l by (cases r6) simp_all
  qed
  then obtain evs where "log (snd (page_query x q s w)) = log w @ ?pre @ evs" ..
  then have "new_events w (snd (page_query x q s w)) = ?pre @ evs" by (rule new_events_append)
  then show ?thesis by simp
qed

lemmas demo_simps = demo_def demo_run_def demo_dml_def demo_multi_def demo_world_def py_def
  py_isspace_def


section \<open>The claims\<close>

subsection \<open>C1: what the cleanup of the reply removes\<close>

text \<open>
  Claim C1, as stated, says that a reply wrapped in a triple-backtick fence with a
  language tag is cleaned to a string without any backtick. That fails when the SQL
  inside the fence itself contains a backtick, for example around a quoted identifier:
  only the fences are removed.
\<close>

theorem get_sql_query_backtick_counterexample:
  "fst (get_sql_query
          (demo (Inr (Response (Inr (py ''```sql\<newline>SELECT `name` FROM Students;\<newline>```'')))))
          (py ''List the names'') demo_world) =
     Inr (py ''SELECT `name` FROM Students;'') \<and>
   backtick \<in> set (py ''SELECT `name` FROM Students;'')"
  by (simp add: get_sql_query_eq demo_def safety_cleanup_def strip_def replace_py_def fence_def
      fence_sql_def py_def py_isspace_def backtick_def)

text \<open>
  Claim C1, amended. When the endpoint replies with the text \<open>raw\<close>, \<open>get_sql_query\<close>
  returns the cleaned text, and for every \<open>raw\<close> the cleaned text contains no occurrence
  of the three-backtick fence, hence none of the fence followed by \<open>sql\<close>, and neither
  starts nor ends with whitespace. If moreover the reply, apart from surrounding
  whitespace, is a fence, a tag, a line break, a body, a line break and a fence, and
  neither tag nor body contains a backtick, then the cleaned text contains no backtick
  at all.
\<close>

theorem get_sql_query_cleanup:
  assumes "generate x (clock w) (PROMPT @ [newline] @ py ''Question: '' @ question) =
             Inr (Response (Inr raw))"
  shows "fst (get_sql_query x question w) = Inr (safety_cleanup raw) \<and>
         \<not> contains fence (safety_cleanup raw) \<and>
         \<not> contains fence_sql (safety_cleanup raw) \<and>
         (safety_cleanup raw \<noteq> [] \<longrightarrow>
            \<not> py_isspace (hd (safety_cleanup raw)) \<and> \<not> py_isspace (last (safety_cleanup raw))) \<and>
         (strip raw = fence @ tag @ [newline] @ body @ [newline] @ fence \<and>
          backtick \<notin> set tag \<and> backtick \<notin> set body \<longrightarrow>
            backtick \<notin> set (safety_cleanup raw))"
proof -
  have 1: "fst (get_sql_query x question w) = Inr (safety_cleanup raw)"
    using assms by (simp add: get_sql_query_eq)
  have 2: "backtick \<notin> set (safety_cleanup raw)"
    if "strip raw = fence @ tag @ [newline] @ body @ [newline] @ fence"
      "backtick \<notin> set tag" "backtick \<notin> set body"
  proof (rule cleanup_stripped_fenced)
    show "strip raw = fence @ (tag @ [newline] @ body @ [newline]) @ fence" using that by simp
    show "backtick \<notin> set (tag @ [newline] @ body @ [newline])"
      using that by (simp add: backtick_def newline_def)
  qed
  show ?thesis using 1 2 cleanup_no_fence cleanup_no_fence_sql cleanup_ends by blast
qed

theorem get_sql_query_cleanup_witness:
  "fst (get_sql_query
          (demo (Inr (Response (Inr (py ''```sql\<newline>SELECT COUNT(*) FROM Students;\<newline>```'')))))
          (py ''How many entries are present?'') demo_world) =
     Inr (py ''SELECT COUNT(*) FROM Students;'') \<and>
   backtick \<notin> set (py ''SELECT COUNT(*) FROM Students;'')"
proof -
  let ?raw = "py ''```sql\<newline>SELECT COUNT(*) FROM Students;\<newline>```''"
  let ?x = "demo (Inr (Response (Inr ?raw)))"
  have h: "generate ?x (clock demo_world)
             (PROMPT @ [newline] @ py ''Question: '' @ py ''How many entries are present?'') =
           Inr (Response (Inr ?raw))"
    by (simp add: demo_def)
  have s: "strip ?raw =
      fence @ py ''sql'' @ [newline] @ py ''SELECT COUNT(*) FROM Students;'' @ [newline] @ fence"
    by (simp add: strip_def py_def fence_def newline_def py_isspace_def)
  have c: "safety_cleanup ?raw = py ''SELECT COUNT(*) FROM Students;''"
    by (simp add: safety_cleanup_def strip_def replace_py_def fence_def fence_sql_def py_def
        py_isspace_def)
  have b: "backtick \<notin> set (py ''sql'')" "backtick \<notin> set (py ''SELECT COUNT(*) FROM Students;'')"
    by (simp_all add: py_def backtick_def)
  from get_sql_query_cleanup[OF h, of "py ''sql''" "py ''SELECT COUNT(*) FROM Students;''"] s b
  show ?thesis unfolding c by blast
qed

subsection \<open>C2: what a write statement leaves in the database file\<close>

text \<open>
  Claim C2, as stated, says that every write statement changes the stored database.
  \<open>execute_sql\<close> never calls \<open>commit\<close>: a \<open>DELETE\<close> that empties the table runs and
  succeeds inside the transaction that the module opened for it, and closing the
  connection discards that transaction, so that the file is what it was before the
  call.
\<close>

theorem execute_sql_delete_counterexample:
  "run (demo (Inl (Exn []))) 0 (py ''DELETE FROM Students;'') (files demo_world (py ''data.db'')) =
     Inr (Some [], Inr []) \<and>
   files demo_world (py ''data.db'') \<noteq> Some [] \<and>
   fst (execute_sql (demo (Inl (Exn []))) (py ''DELETE FROM Students;'') (py ''data.db'')
          demo_world) = Inr [] \<and>
   files (snd (execute_sql (demo (Inl (Exn []))) (py ''DELETE FROM Students;'') (py ''data.db'')
                 demo_world)) = files demo_world"
  by (simp add: execute_sql_cases demo_simps)

text \<open>
  Claim C2, amended. \<open>execute_sql\<close> puts no check between the string and the engine:
  when the path can be opened, the string is one statement and the engine accepts it,
  the statement is executed and its rows are returned. If the statement is of the kind
  for which the module opens a transaction (\<open>INSERT\<close>, \<open>UPDATE\<close>, \<open>DELETE\<close>,
  \<open>REPLACE\<close>), the stored database after the call is the one before the call; for any
  other statement, such as \<open>DROP\<close>, it is the database the engine produced.
\<close>

theorem execute_sql_write_persistence:
  assumes "openable x db_path" and "\<not> multi x sql"
    and "run x (clock w) sql (files w db_path) = Inr (d', Inr rows)"
  shows "fst (execute_sql x sql db_path w) = Inr rows \<and>
         files (snd (execute_sql x sql db_path w)) =
           (if dml x sql then files w else (files w)(db_path := d'))"
  using assms by (simp add: execute_sql_cases)

theorem execute_sql_write_persistence_witness:
  "fst (execute_sql (demo (Inl (Exn []))) (py ''DROP TABLE Students;'') (py ''data.db'')
          demo_world) = Inr [] \<and>
   files (snd (execute_sql (demo (Inl (Exn []))) (py ''DROP TABLE Students;'') (py ''data.db'')
                 demo_world)) (py ''data.db'') = None"
proof -
  let ?x = "demo (Inl (Exn [])) :: row list option services"
  have 1: "openable ?x (py ''data.db'')" by (simp add: demo_def)
  have 2: "\<not> multi ?x (py ''DROP TABLE Students;'')" by (simp add: demo_simps)
  have 3: "run ?x (clock demo_world) (py ''DROP TABLE Students;'')
             (files demo_world (py ''data.db'')) = Inr (None, Inr [])"
    by (simp add: demo_simps)
  have 4: "\<not> dml ?x (py ''DROP TABLE Students;'')" by (simp add: demo_simps)
  from execute_sql_write_persistence[OF 1 2 3] 4 show ?thesis by simp
qed

subsection \<open>C3: the connection is left open when the call raises\<close>

text \<open>
  Claim C3. Once the connection has been made, every way in which \<open>execute_sql\<close> can
  raise leaves that connection open. When \<open>cursor.execute\<close> raises an exception,
  \<open>execute_sql\<close> ends with that same exception, in the state in which \<open>execute\<close> left
  the world: the new connection is open, and the events of the call are the connect and
  the execute. When \<open>execute\<close> returns and \<open>cursor.fetchall\<close> raises, \<open>execute_sql\<close> ends
  with that exception in the state in which \<open>fetchall\<close> left the world: the connection is
  open, and the events are the connect, the execute and the fetch. Whenever the call ends
  with an exception the connection is open and no close is among its events: the close
  is among the events exactly when the call returns rows.
\<close>

theorem execute_sql_error_leaks_connection:
  assumes "sqlite3_connect x db_path w = (Inr conn, w1)"
  shows
    "(cursor_execute x conn sql w1 = (Inl e, w2) \<longrightarrow>
        execute_sql x sql db_path w = (Inl e, w2) \<and>
        conn < length (conns w2) \<and> c_open (conns w2 ! conn) \<and>
        c_path (conns w2 ! conn) = db_path \<and>
        log w2 = log w @ [Sqlite3_connect db_path, Cursor_execute sql]) \<and>
     (cursor_execute x conn sql w1 = (Inr (), w2) \<and> cursor_fetchall conn w2 = (Inl e, w3) \<longrightarrow>
        execute_sql x sql db_path w = (Inl e, w3) \<and>
        conn < length (conns w3) \<and> c_open (conns w3 ! conn) \<and>
        c_path (conns w3 ! conn) = db_path \<and>
        log w3 = log w @ [Sqlite3_connect db_path, Cursor_execute sql, Cursor_fetchall]) \<and>
     (isl (fst (execute_sql x sql db_path w)) \<longrightarrow>
        conn < length (conns (snd (execute_sql x sql db_path w))) \<and>
        c_open (conns (snd (execute_sql x sql db_path w)) ! conn) \<and>
        Conn_close \<notin> set (new_events w (snd (execute_sql x sql db_path w)))) \<and>
     (Conn_close \<in> set (new_events w (snd (execute_sql x sql db_path w))) \<longleftrightarrow>
        \<not> isl (fst (execute_sql x sql db_path w)))"
proof -
  from connect_Inr[OF assms] have c: "conn = length (conns w)" and o: "openable x db_path"
    and w1: "w1 = w\<lparr>log := log w @ [Sqlite3_connect db_path],
        conns := conns w @ [\<lparr>c_path = db_path, c_open = True, c_txn = None, c_rows = Inr []\<rparr>]\<rparr>"
    by simp_all
  have i: "conn < length (conns w1)" "c_open (conns w1 ! conn)" "c_path (conns w1 ! conn) = db_path"
    "log w1 = log w @ [Sqlite3_connect db_path]"
    by (simp_all add: c w1)
  have A: "execute_sql x sql db_path w = (Inl e, w2) \<and>
        conn < length (conns w2) \<and> c_open (conns w2 ! conn) \<and>
        c_path (conns w2 ! conn) = db_path \<and>
        log w2 = log w @ [Sqlite3_connect db_path, Cursor_execute sql]"
    if h: "cursor_execute x conn sql w1 = (Inl e, w2)"
  proof -
    have "execute_sql x sql db_path w = (Inl e, w2)"
      using assms h by (simp add: execute_sql_def bnd_def conn_cursor_def ret_def)
    then show ?thesis
      using execute_Inl[OF h i(1,2)] execute_Inl_path[OF h i(1,2)] i by simp
  qed
  have B: "execute_sql x sql db_path w = (Inl e, w3) \<and>
        conn < length (conns w3) \<and> c_open (conns w3 ! conn) \<and>
        c_path (conns w3 ! conn) = db_path \<and>
        log w3 = log w @ [Sqlite3_connect db_path, Cursor_execute sql, Cursor_fetchall]"
    if h: "cursor_execute x conn sql w1 = (Inr (), w2)" and f: "cursor_fetchall conn w2 = (Inl e, w3)"
  proof -
    have "execute_sql x sql db_path w = (Inl e, w3)"
      using assms h f by (simp add: execute_sql_def bnd_def conn_cursor_def ret_def)
    then show ?thesis
      using execute_Inr[OF h i(1,2)] fetchall_Inl[OF f] i by simp
  qed
  have C: "conn < length (conns (snd (execute_sql x sql db_path w))) \<and>
        c_open (conns (snd (execute_sql x sql db_path w)) ! conn) \<and>
        Conn_close \<notin> set (new_events w (snd (execute_sql x sql db_path w)))"
    if "isl (fst (execute_sql x sql db_path w))"
    using that o
    by (auto simp: execute_sql_cases new_events_def c nth_append split: if_splits sum.splits prod.splits)
  have D: "Conn_close \<in> set (new_events w (snd (execute_sql x sql db_path w))) \<longleftrightarrow>
        \<not> isl (fst (execute_sql x sql db_path w))"
    using o
    by (auto simp: execute_sql_cases new_events_def split: if_splits sum.splits prod.splits)
  show ?thesis using A B C D by blast
qed

theorem execute_sql_error_leaks_connection_witness:
  "fst (execute_sql (demo (Inl (Exn []))) (py ''SELEC name FROM Students'') (py ''data.db'')
          demo_world) = Inl (Exn (py ''syntax error'')) \<and>
   c_open (conns (snd (execute_sql (demo (Inl (Exn []))) (py ''SELEC name FROM Students'')
                         (py ''data.db'') demo_world)) ! 0) \<and>
   fst (execute_sql
          (demo (Inl (Exn [])) \<lparr>run := \<lambda>now sql d. Inr (d, Inl (Exn (py ''integer overflow'')))\<rparr>)
          (py ''SELECT name, abs(marks) FROM Students'') (py ''data.db'') demo_world) =
     Inl (Exn (py ''integer overflow'')) \<and>
   c_open (conns (snd (execute_sql
          (demo (Inl (Exn [])) \<lparr>run := \<lambda>now sql d. Inr (d, Inl (Exn (py ''integer overflow'')))\<rparr>)
          (py ''SELECT name, abs(marks) FROM Students'') (py ''data.db'') demo_world)) ! 0) \<and>
   new_events demo_world (snd (execute_sql
          (demo (Inl (Exn [])) \<lparr>run := \<lambda>now sql d. Inr (d, Inl (Exn (py ''integer overflow'')))\<rparr>)
          (py ''SELECT name, abs(marks) FROM Students'') (py ''data.db'') demo_world)) =
     [Sqlite3_connect (py ''data.db''),
      Cursor_execute (py ''SELECT name, abs(marks) FROM Students''), Cursor_fetchall]"
proof -
  let ?x = "demo (Inl (Exn [])) :: row list option services"
  let ?sql = "py ''SELEC name FROM Students''"
  let ?w1 = "snd (sqlite3_connect ?x (py ''data.db'') demo_world)"
  let ?w2 = "snd (cursor_execute ?x 0 ?sql ?w1)"
  have "fst (sqlite3_connect ?x (py ''data.db'') demo_world) = Inr 0"
    by (simp add: connect_ok demo_def demo_world_def)
  then have 1: "sqlite3_connect ?x (py ''data.db'') demo_world = (Inr 0, ?w1)"
    by (metis prod.collapse)
  have "fst (cursor_execute ?x 0 ?sql ?w1) = Inl (Exn (py ''syntax error''))"
    by (simp add: connect_ok cursor_execute_def bnd_emit demo_simps)
  then have 2: "cursor_execute ?x 0 ?sql ?w1 = (Inl (Exn (py ''syntax error'')), ?w2)"
    by (metis prod.collapse)
  from execute_sql_error_leaks_connection[OF 1, of ?sql "Exn (py ''syntax error'')" ?w2] 2
  have A: "execute_sql ?x ?sql (py ''data.db'') demo_world = (Inl (Exn (py ''syntax error'')), ?w2)"
    "c_open (conns ?w2 ! 0)"
    by blast+
  let ?y = "?x \<lparr>run := \<lambda>now sql d. Inr (d, Inl (Exn (py ''integer overflow'')))\<rparr>"
  let ?sq = "py ''SELECT name, abs(marks) FROM Students''"
  let ?v1 = "snd (sqlite3_connect ?y (py ''data.db'') demo_world)"
  let ?v2 = "snd (cursor_execute ?y 0 ?sq ?v1)"
  let ?v3 = "snd (cursor_fetchall 0 ?v2)"
  have "fst (sqlite3_connect ?y (py ''data.db'') demo_world) = Inr 0"
    by (simp add: connect_ok demo_def demo_world_def)
  then have 3: "sqlite3_connect ?y (py ''data.db'') demo_world = (Inr 0, ?v1)"
    by (metis prod.collapse)
  have "fst (cursor_execute ?y 0 ?sq ?v1) = Inr ()"
    by (simp add: connect_ok cursor_execute_def bnd_emit demo_simps)
  then have 4: "cursor_execute ?y 0 ?sq ?v1 = (Inr (), ?v2)"
    by (metis prod.collapse)
  have "fst (cursor_fetchall 0 ?v2) = Inl (Exn (py ''integer overflow''))"
    by (simp add: connect_ok cursor_execute_def cursor_fetchall_def bnd_emit demo_simps)
  then have 5: "cursor_fetchall 0 ?v2 = (Inl (Exn (py ''integer overflow'')), ?v3)"
    by (metis prod.collapse)
  from execute_sql_error_leaks_connection
         [OF 3, of ?sq "Exn (py ''integer overflow'')" ?v2 ?v3] 4 5
  have B: "execute_sql ?y ?sq (py ''data.db'') demo_world = (Inl (Exn (py ''integer overflow'')), ?v3)"
    "c_open (conns ?v3 ! 0)"
    "log ?v3 = log demo_world @ [Sqlite3_connect (py ''data.db''), Cursor_execute ?sq, Cursor_fetchall]"
    by blast+
  show ?thesis unfolding A(1) B(1) using A(2) B(2,3) by (simp add: new_events_def)
qed

subsection \<open>C4: the successful call\<close>

text \<open>
  Claim C4. When the path can be opened, the string is one statement and the engine,
  given that very string and the database stored at the path, yields the rows
  \<open>rows\<close>, then \<open>execute_sql\<close> returns exactly \<open>rows\<close>; its events are, in this order,
  the connect to the given path, the execute of the unchanged string, the fetch and the
  close; the one connection it made is closed; and the engine was called once.
\<close>

theorem execute_sql_success:
  assumes "openable x db_path" and "\<not> multi x sql"
    and "run x (clock w) sql (files w db_path) = Inr (d', Inr rows)"
  shows "fst (execute_sql x sql db_path w) = Inr rows \<and>
         new_events w (snd (execute_sql x sql db_path w)) =
           [Sqlite3_connect db_path, Cursor_execute sql, Cursor_fetchall, Conn_close] \<and>
         conns (snd (execute_sql x sql db_path w)) =
           conns w @ [\<lparr>c_path = db_path, c_open = False, c_txn = None, c_rows = Inr []\<rparr>] \<and>
         clock (snd (execute_sql x sql db_path w)) = Suc (clock w)"
  using assms by (simp add: execute_sql_cases new_events_def)

theorem execute_sql_success_witness:
  "fst (execute_sql (demo (Inl (Exn []))) (py ''SELECT COUNT(*) FROM Students;'') (py ''data.db'')
          demo_world) = Inr [ [SqlInt 2] ] \<and>
   new_events demo_world
     (snd (execute_sql (demo (Inl (Exn []))) (py ''SELECT COUNT(*) FROM Students;'')
             (py ''data.db'') demo_world)) =
     [Sqlite3_connect (py ''data.db''), Cursor_execute (py ''SELECT COUNT(*) FROM Students;''),
      Cursor_fetchall, Conn_close]"
proof -
  let ?x = "demo (Inl (Exn [])) :: row list option services"
  let ?sql = "py ''SELECT COUNT(*) FROM Students;''"
  have 1: "openable ?x (py ''data.db'')" by (simp add: demo_def)
  have 2: "\<not> multi ?x ?sql" by (simp add: demo_simps)
  have 3: "run ?x (clock demo_world) ?sql (files demo_world (py ''data.db'')) =
             Inr (files demo_world (py ''data.db''), Inr [ [SqlInt 2] ])"
    by (simp add: demo_simps)
  from execute_sql_success[OF 1 2 3] show ?thesis by simp
qed

subsection \<open>C5: the handler of the query page\<close>

text \<open>
  Claim C5. \<open>page_query\<close> never ends with an exception, whatever the services do. When
  the button was pressed with a question and the translation raises \<open>e\<close>, or the
  translation returns and the execution raises \<open>e\<close>, the page ends normally in the
  state the failing step left, with one more event: the error message made of the
  prefix and \<open>str(e)\<close>. The exceptions of the model are instances of \<open>Exception\<close>, which
  is what \<open>except Exception\<close> catches.
\<close>

theorem page_query_catches_every_exception:
  "fst (page_query x question submit w) = Inr () \<and>
   (submit \<and> question \<noteq> [] \<and>
    get_sql_query x question (w\<lparr>log := log w @ [St_markdown, St_text_input, St_button]\<rparr>) =
      (Inl e, w1) \<longrightarrow>
      page_query x question submit w =
        (Inr (), w1\<lparr>log := log w1 @ [St_error (error_prefix @ message e)]\<rparr>)) \<and>
   (submit \<and> question \<noteq> [] \<and>
    get_sql_query x question (w\<lparr>log := log w @ [St_markdown, St_text_input, St_button]\<rparr>) =
      (Inr sql, w1) \<and>
    execute_sql x sql (py ''data.db'')
      (w1\<lparr>log := log w1 @ [St_success (py ''Generated SQL:''), St_code sql]\<rparr>) = (Inl e, w2) \<longrightarrow>
      page_query x question submit w =
        (Inr (), w2\<lparr>log := log w2 @ [St_error (error_prefix @ message e)]\<rparr>))"
proof -
  have a: "fst (page_query x question submit w) = Inr ()" by (rule page_query_no_raise)
  have b: "page_query x question submit w =
        (Inr (), w1\<lparr>log := log w1 @ [St_error (error_prefix @ message e)]\<rparr>)"
    if "submit" "question \<noteq> []"
      "get_sql_query x question (w\<lparr>log := log w @ [St_markdown, St_text_input, St_button]\<rparr>) =
        (Inl e, w1)"
    using that(3) by (simp add: page_query_run[OF that(1,2)] Let_def)
  have c: "page_query x question submit w =
        (Inr (), w2\<lparr>log := log w2 @ [St_error (error_prefix @ message e)]\<rparr>)"
    if "submit" "question \<noteq> []"
      "get_sql_query x question (w\<lparr>log := log w @ [St_markdown, St_text_input, St_button]\<rparr>) =
        (Inr sql, w1)"
      "execute_sql x sql (py ''data.db'')
        (w1\<lparr>log := log w1 @ [St_success (py ''Generated SQL:''), St_code sql]\<rparr>) = (Inl e, w2)"
    using that(3,4) by (simp add: page_query_run[OF that(1,2)] Let_def)
  show ?thesis using a b c by blast
qed

theorem page_query_catches_every_exception_witness:
  "fst (page_query (demo (Inr (Response (Inr (py ''I cannot answer that.'')))))
          (py ''What is the weather?'') True demo_world) = Inr () \<and>
   last (log (snd (page_query (demo (Inr (Response (Inr (py ''I cannot answer that.'')))))
          (py ''What is the weather?'') True demo_world))) =
     St_error (error_prefix @ py ''syntax error'') \<and>
   last (log (snd (page_query (demo (Inl (Exn (py ''503 Service Unavailable''))))
          (py ''What is the weather?'') True demo_world))) =
     St_error (error_prefix @ py ''503 Service Unavailable'')"
proof -
  let ?q = "py ''What is the weather?''"
  let ?w3 = "demo_world\<lparr>log := log demo_world @ [St_markdown, St_text_input, St_button]\<rparr>"
  let ?x = "demo (Inr (Response (Inr (py ''I cannot answer that.''))))"
  let ?sql = "py ''I cannot answer that.''"
  let ?w4 = "snd (get_sql_query ?x ?q ?w3)"
  let ?w5 = "?w4\<lparr>log := log ?w4 @ [St_success (py ''Generated SQL:''), St_code ?sql]\<rparr>"
  let ?w6 = "snd (execute_sql ?x ?sql (py ''data.db'') ?w5)"
  have "fst (get_sql_query ?x ?q ?w3) = Inr ?sql"
    by (simp add: get_sql_query_eq demo_def safety_cleanup_def strip_def replace_py_def fence_def
        fence_sql_def py_def py_isspace_def)
  then have 1: "get_sql_query ?x ?q ?w3 = (Inr ?sql, ?w4)" by (metis prod.collapse)
  have "fst (execute_sql ?x ?sql (py ''data.db'') ?w5) = Inl (Exn (py ''syntax error''))"
    by (simp add: execute_sql_cases demo_simps)
  then have 2: "execute_sql ?x ?sql (py ''data.db'') ?w5 = (Inl (Exn (py ''syntax error'')), ?w6)"
    by (metis prod.collapse)
  have q: "?q \<noteq> []" by (simp add: py_def)
  let ?y = "demo (Inl (Exn (py ''503 Service Unavailable''))) :: row list option services"
  have "fst (get_sql_query ?y ?q ?w3) = Inl (Exn (py ''503 Service Unavailable''))"
    by (simp add: get_sql_query_eq demo_def)
  then have 3: "get_sql_query ?y ?q ?w3 =
      (Inl (Exn (py ''503 Service Unavailable'')), snd (get_sql_query ?y ?q ?w3))"
    by (metis prod.collapse)
  from page_query_catches_every_exception
         [of ?x ?q True demo_world "Exn (py ''syntax error'')" ?w4 ?sql ?w6] 1 2 q
  have A: "fst (page_query ?x ?q True demo_world) = Inr ()"
     "page_query ?x ?q True demo_world =
        (Inr (), ?w6\<lparr>log := log ?w6 @ [St_error (error_prefix @ message (Exn (py ''syntax error'')))]\<rparr>)"
    by blast+
  from page_query_catches_every_exception
         [of ?y ?q True demo_world "Exn (py ''503 Service Unavailable'')"
             "snd (get_sql_query ?y ?q ?w3)"] 3 q
  have B: "page_query ?y ?q True demo_world =
        (Inr (), (snd (get_sql_query ?y ?q ?w3))
           \<lparr>log := log (snd (get_sql_query ?y ?q ?w3)) @
              [St_error (error_prefix @ message (Exn (py ''503 Service Unavailable'')))]\<rparr>)"
    by blast
  show ?thesis unfolding A(2) B by simp
qed

subsection \<open>C6: no credential, no network call\<close>

text \<open>
  Claim C6. When the environment has no \<open>GOOGLE_API_KEY\<close>, a run of the script shows
  the error message, stops, and does nothing else: the client is not configured and no
  prompt is sent to the generation endpoint.
\<close>

theorem script_missing_key_halts:
  assumes "environ (py ''GOOGLE_API_KEY'') = None"
  shows "script x environ u w =
           (Stopped, w\<lparr>log := log w @ [St_error missing_key_message, St_stop]\<rparr>) \<and>
         new_events w (snd (script x environ u w)) = [St_error missing_key_message, St_stop] \<and>
         (\<forall>key. Genai_configure key \<notin> set (new_events w (snd (script x environ u w)))) \<and>
         (\<forall>prompt. Generate_content prompt \<notin> set (new_events w (snd (script x environ u w))))"
  using assms by (simp add: script_def bnd_emit emit_def new_events_def)

theorem script_missing_key_halts_witness:
  "script (demo (Inr (Response (Inr (py ''SELECT COUNT(*) FROM Students;''))))) Map.empty
     \<lparr>ui_choice = py ''Intelligent Query Assistance'',
      ui_question = py ''How many entries are present?'', ui_submit = True\<rparr> demo_world =
   (Stopped, demo_world\<lparr>log := [St_error missing_key_message, St_stop]\<rparr>)"
proof -
  have h: "(Map.empty :: pystr \<rightharpoonup> pystr) (py ''GOOGLE_API_KEY'') = None" by simp
  from script_missing_key_halts[OF h, where w = demo_world and
      x = "demo (Inr (Response (Inr (py ''SELECT COUNT(*) FROM Students;''))))" and
      u = "\<lparr>ui_choice = py ''Intelligent Query Assistance'',
      ui_question = py ''How many entries are present?'', ui_submit = True\<rparr>"]
  show ?thesis by (simp add: demo_world_def)
qed

subsection \<open>C7: counting the rows\<close>



subsection \<open>C8: asking the same question twice\<close>

text \<open>
  Claim C8, as stated, needs only the endpoint to answer identical prompts
  identically. That is not enough: the result of a statement such as
  \<open>SELECT random();\<close> depends on a state outside the database, so with the same reply and
  an unchanged database the two runs display different rows.
\<close>

theorem page_query_twice_counterexample:
  "files (snd (page_query (demo (Inr (Response (Inr (py ''SELECT random();'')))))
                 (py ''Pick a random number'') True demo_world)) = files demo_world \<and>
   shown_tables (new_events demo_world
     (snd (page_query (demo (Inr (Response (Inr (py ''SELECT random();'')))))
             (py ''Pick a random number'') True demo_world))) = [ [ [SqlInt 1] ] ] \<and>
   shown_tables (new_events
     (snd (page_query (demo (Inr (Response (Inr (py ''SELECT random();'')))))
             (py ''Pick a random number'') True demo_world))
     (snd (page_query (demo (Inr (Response (Inr (py ''SELECT random();'')))))
             (py ''Pick a random number'') True
        (snd (page_query (demo (Inr (Response (Inr (py ''SELECT random();'')))))
             (py ''Pick a random number'') True demo_world))))) = [ [ [SqlInt 3] ] ]"
proof -
  let ?x = "demo (Inr (Response (Inr (py ''SELECT random();''))))"
  let ?q = "py ''Pick a random number''"
  let ?p = "PROMPT @ [newline] @ py ''Question: '' @ ?q"
  have q: "?q \<noteq> []" by (simp add: py_def)
  have c: "safety_cleanup (py ''SELECT random();'') = py ''SELECT random();''"
    by (simp add: safety_cleanup_def strip_def replace_py_def fence_def fence_sql_def py_def
        py_isspace_def)
  have p: "openable ?x (py ''data.db'') \<and> \<not> multi ?x (py ''SELECT random();'') \<and>
           \<not> dml ?x (py ''SELECT random();'') \<and>
           generate ?x i prompt = Inr (Response (Inr (py ''SELECT random();''))) \<and>
           run ?x now (py ''SELECT random();'') d = Inr (d, Inr [ [SqlInt (int now)] ])"
    for i prompt now d
    by (simp add: demo_simps)
  have 1: "page_query ?x ?q True w =
     (Inr (), w\<lparr>conns := conns w @ [\<lparr>c_path = py ''data.db'', c_open = False, c_txn = None,
                                    c_rows = Inr []\<rparr>],
                clock := Suc (Suc (clock w)),
                log := log w @ [St_markdown, St_text_input, St_button,
                        Generate_content ?p,
                        St_success (py ''Generated SQL:''),
                        St_code (py ''SELECT random();''),
                        Sqlite3_connect (py ''data.db''),
                        Cursor_execute (py ''SELECT random();''),
                        Cursor_fetchall, Conn_close,
                        St_subheader (py ''Query Result:''),
                        St_table [ [SqlInt (int (Suc (clock w)))] ] ]\<rparr>)" for w
    by (simp add: page_query_run[OF _ q] get_sql_query_eq c execute_sql_cases p)
  show ?thesis
    by (simp add: 1 new_events_def shown_tables_def demo_world_def)
qed

text \<open>
  Claim C8, amended. Assume that the endpoint answers identical prompts identically,
  that the result of the engine on the statement the question is translated to depends
  only on that statement and on the database, that the first run of the page leaves the
  stored databases unchanged, and that no connection is open after the first run: none
  was open before it, and its own call of \<open>execute_sql\<close>, if any, did not raise after
  connecting. Then a second run with the same question adds the same events as the first
  one; in particular it displays the same rows. A connection left open may hold a lock on
  the file, which the model does not describe; this is why such states are excluded.
\<close>

theorem page_query_twice_same_rows:
  assumes "\<forall>i j prompt. generate x i prompt = generate x j prompt"
    and "\<forall>sql i j d. fst (get_sql_query x question w) = Inr sql \<longrightarrow>
           run x i sql d = run x j sql d"
    and "files (snd (page_query x question submit w)) = files w"
    and "list_all (\<lambda>c. \<not> c_open c) (conns (snd (page_query x question submit w)))"
  shows "new_events (snd (page_query x question submit w))
           (snd (page_query x question submit (snd (page_query x question submit w)))) =
         new_events w (snd (page_query x question submit w)) \<and>
         shown_tables (new_events (snd (page_query x question submit w))
           (snd (page_query x question submit (snd (page_query x question submit w))))) =
         shown_tables (new_events w (snd (page_query x question submit w)))"
proof -
  have g: "\<And>i. generate x i = generate x 0"
    using assms(1) by (intro ext) blast
  have r: "\<And>sql i. fst (get_sql_query x question w) = Inr sql \<Longrightarrow> run x i sql = run x 0 sql"
    using assms(2) by (intro ext) blast
  have "new_events w (snd (page_query x question submit w)) =
        new_events (snd (page_query x question submit w))
           (snd (page_query x question submit (snd (page_query x question submit w))))"
    using g r assms(3)[symmetric] by (rule page_query_det)
  then show ?thesis by simp
qed

theorem page_query_twice_same_rows_witness:
  "shown_tables (new_events demo_world
     (snd (page_query (demo (Inr (Response (Inr (py ''SELECT COUNT(*) FROM Students;'')))))
             (py ''How many entries are present?'') True demo_world))) = [ [ [SqlInt 2] ] ] \<and>
   shown_tables (new_events
     (snd (page_query (demo (Inr (Response (Inr (py ''SELECT COUNT(*) FROM Students;'')))))
             (py ''How many entries are present?'') True demo_world))
     (snd (page_query (demo (Inr (Response (Inr (py ''SELECT COUNT(*) FROM Students;'')))))
             (py ''How many entries are present?'') True
        (snd (page_query (demo (Inr (Response (Inr (py ''SELECT COUNT(*) FROM Students;'')))))
             (py ''How many entries are present?'') True demo_world))))) = [ [ [SqlInt 2] ] ]"
proof -
  let ?x = "demo (Inr (Response (Inr (py ''SELECT COUNT(*) FROM Students;''))))"
  let ?q = "py ''How many entries are present?''"
  have q: "?q \<noteq> []" by (simp add: py_def)
  have c: "safety_cleanup (py ''SELECT COUNT(*) FROM Students;'') =
           py ''SELECT COUNT(*) FROM Students;''"
    by (simp add: safety_cleanup_def strip_def replace_py_def fence_def fence_sql_def py_def
        py_isspace_def)
  have 1: "\<forall>i j prompt. generate ?x i prompt = generate ?x j prompt" by (simp add: demo_def)
  have 2: "\<forall>sql i j d. fst (get_sql_query ?x ?q demo_world) = Inr sql \<longrightarrow>
           run ?x i sql d = run ?x j sql d"
  proof -
    have f: "fst (get_sql_query ?x ?q demo_world) = Inr (py ''SELECT COUNT(*) FROM Students;'')"
      by (simp add: get_sql_query_eq demo_def c)
    have d: "run ?x i (py ''SELECT COUNT(*) FROM Students;'') d =
             run ?x j (py ''SELECT COUNT(*) FROM Students;'') d" for i j d
      by (simp add: demo_simps)
    show ?thesis unfolding f using d by blast
  qed
  have sv: "openable ?x (py ''data.db'') \<and> \<not> multi ?x (py ''SELECT COUNT(*) FROM Students;'') \<and>
           \<not> dml ?x (py ''SELECT COUNT(*) FROM Students;'') \<and>
           generate ?x i prompt = Inr (Response (Inr (py ''SELECT COUNT(*) FROM Students;''))) \<and>
           run ?x now (py ''SELECT COUNT(*) FROM Students;'') (files demo_world (py ''data.db'')) =
             Inr (files demo_world (py ''data.db''), Inr [ [SqlInt 2] ])"
    for i prompt now
    by (simp add: demo_simps)
  have p: "page_query ?x ?q True demo_world =
     (Inr (), demo_world\<lparr>conns := [\<lparr>c_path = py ''data.db'', c_open = False, c_txn = None,
                                    c_rows = Inr []\<rparr>],
                clock := 2,
                log := [St_markdown, St_text_input, St_button,
                        Generate_content (PROMPT @ [newline] @ py ''Question: '' @ ?q),
                        St_success (py ''Generated SQL:''),
                        St_code (py ''SELECT COUNT(*) FROM Students;''),
                        Sqlite3_connect (py ''data.db''),
                        Cursor_execute (py ''SELECT COUNT(*) FROM Students;''),
                        Cursor_fetchall, Conn_close,
                        St_subheader (py ''Query Result:''), St_table [ [SqlInt 2] ] ]\<rparr>)"
    by (simp add: page_query_run[OF _ q] get_sql_query_eq c execute_sql_cases sv)
       (simp add: demo_world_def)
  have 3: "files (snd (page_query ?x ?q True demo_world)) = files demo_world"
    by (simp add: p)
  have 4: "shown_tables (new_events demo_world (snd (page_query ?x ?q True demo_world))) =
           [ [ [SqlInt 2] ] ]"
    unfolding p by (simp add: new_events_def shown_tables_def demo_world_def)
  have 5: "list_all (\<lambda>c. \<not> c_open c) (conns (snd (page_query ?x ?q True demo_world)))"
    unfolding p by (simp add: demo_world_def)
  from page_query_twice_same_rows[OF 1 2 3 5] 4 show ?thesis by simp
qed

subsection \<open>C9: more than one statement\<close>

text \<open>
  Claim C9. When the string holds more than one statement, \<open>execute_sql\<close> ends with an
  exception, the engine is not called and the stored databases are unchanged. For every
  string, a call of \<open>execute_sql\<close> calls the engine at most once.
\<close>

theorem execute_sql_multi_raises:
  "(multi x sql \<longrightarrow>
      isl (fst (execute_sql x sql db_path w)) \<and>
      files (snd (execute_sql x sql db_path w)) = files w \<and>
      clock (snd (execute_sql x sql db_path w)) = clock w) \<and>
   clock (snd (execute_sql x sql db_path w)) \<le> Suc (clock w)"
  by (simp add: execute_sql_cases split: sum.splits prod.splits)

theorem execute_sql_multi_raises_witness:
  "multi (demo (Inl (Exn []))) (py ''SELECT COUNT(*) FROM Students; DROP TABLE Students;'') \<and>
   fst (execute_sql (demo (Inl (Exn [])))
          (py ''SELECT COUNT(*) FROM Students; DROP TABLE Students;'') (py ''data.db'')
          demo_world) = Inl (Exn (py ''You can only execute one statement at a time.'')) \<and>
   files (snd (execute_sql (demo (Inl (Exn [])))
          (py ''SELECT COUNT(*) FROM Students; DROP TABLE Students;'') (py ''data.db'')
          demo_world)) = files demo_world"
proof -
  let ?x = "demo (Inl (Exn [])) :: row list option services"
  let ?sql = "py ''SELECT COUNT(*) FROM Students; DROP TABLE Students;''"
  have 1: "multi ?x ?sql" by (simp add: demo_simps)
  have 2: "fst (execute_sql ?x ?sql (py ''data.db'') demo_world) =
             Inl (Exn (py ''You can only execute one statement at a time.''))"
    using 1 by (simp add: execute_sql_cases) (simp add: demo_def)
  from execute_sql_multi_raises[of ?x ?sql "py ''data.db''" demo_world] 1 2
  show ?thesis by simp
qed

subsection \<open>C10: the empty question\<close>

text \<open>
  Claim C10. Unless the button was pressed and the question is not empty, \<open>page_query\<close>
  only draws its three widgets: the world is otherwise unchanged, so nothing is sent to
  the endpoint and no connection is made. When the button was pressed and the question
  is not empty, the prompt with the question is sent.
\<close>

theorem page_query_needs_question_and_button:
  "(\<not> (submit \<and> question \<noteq> []) \<longrightarrow>
      page_query x question submit w =
        (Inr (), w\<lparr>log := log w @ [St_markdown, St_text_input, St_button]\<rparr>)) \<and>
   (submit \<and> question \<noteq> [] \<longrightarrow>
      Generate_content (PROMPT @ [newline] @ py ''Question: '' @ question)
        \<in> set (new_events w (snd (page_query x question submit w))))"
  using page_query_idle page_query_generates by blast

theorem page_query_needs_question_and_button_witness:
  "page_query (demo (Inr (Response (Inr (py ''SELECT COUNT(*) FROM Students;''))))) [] True
     demo_world =
   (Inr (), demo_world\<lparr>log := [St_markdown, St_text_input, St_button]\<rparr>)"
  using page_query_needs_question_and_button
          [of True "[]" "demo (Inr (Response (Inr (py ''SELECT COUNT(*) FROM Students;''))))"
              demo_world]
  by (simp add: demo_world_def)

end
